theory Spec2Isabelle
  imports Complex_Main "HOL-Library.Word" "HOL-Library.Multiset"
begin

unbundle bit_operations_syntax

section \<open>Data model\<close>

text \<open>
  The C sources use \<^verbatim>\<open>int\<close> (32 bits, two's complement), \<^verbatim>\<open>float\<close> (IEEE 754 binary32)
  and \<^verbatim>\<open>char name[50]\<close>.  An \<^verbatim>\<open>int\<close> is a \<open>32 word\<close>, read with \<open>sint\<close>; a
  \<^verbatim>\<open>float\<close> is its 32-bit pattern; the array is a function from the index to the byte,
  of which only the indices below 50 belong to the object.
\<close>

type_synonym c_int = "32 word"
type_synonym c_float = "32 word"
type_synonym addr = nat

definition NUL :: char where
  "NUL = CHR 0x00"

definition NAME_SIZE :: nat where
  \<comment> \<open>\<^verbatim>\<open>sizeof(item->name)\<close>\<close>
  "NAME_SIZE = 50"

record Item =
  item_id :: c_int
  item_name :: "nat \<Rightarrow> char"
  item_value :: c_float

text \<open>
  The state the record functions work on: the live heap blocks, the blocks the allocator
  can still hand out (each with the indeterminate contents it has when handed out), and
  the text written to standard output.  A pointer is \<open>addr option\<close>; \<open>None\<close> is
  \<^verbatim>\<open>NULL\<close>.  Reading or freeing through a pointer that is not live is undefined in C
  and a \<open>fault\<close> here.
\<close>

record machine =
  heap :: "addr \<rightharpoonup> Item"
  pool :: "(addr \<times> Item) list"
  stdout :: string

datatype fault = Invalid_Pointer addr

section \<open>The C library, as far as the program calls it\<close>

text \<open>
  \<^verbatim>\<open>malloc\<close> fails (returns \<^verbatim>\<open>NULL\<close>, changes nothing) when the allocator has no block
  left, and otherwise makes its next block live, with indeterminate contents.
\<close>

definition malloc :: "machine \<Rightarrow> addr option \<times> machine" where
  "malloc m =
     (case pool m of
        [] \<Rightarrow> (None, m)
      | (p, junk) # rest \<Rightarrow> (Some p, m\<lparr>heap := (heap m)(p \<mapsto> junk), pool := rest\<rparr>))"

text \<open>
  A C string argument is the list of bytes at the pointer; it ends before the first
  \<open>NUL\<close> (or at the end of the list, where the terminator stands).
\<close>

definition c_strlen :: "string \<Rightarrow> nat" where
  "c_strlen s = length (takeWhile (\<lambda>c. c \<noteq> NUL) s)"

text \<open>
  \<^verbatim>\<open>strncpy(dest, src, n)\<close> writes exactly \<open>n\<close> bytes: the bytes of \<open>src\<close> up to its
  terminator, then \<open>NUL\<close>s up to \<open>n\<close>; no terminator when \<open>src\<close> has \<open>n\<close> or more bytes.
\<close>

fun strncpy_bytes :: "string \<Rightarrow> nat \<Rightarrow> string" where
  "strncpy_bytes src 0 = []"
| "strncpy_bytes [] (Suc n) = NUL # strncpy_bytes [] n"
| "strncpy_bytes (c # cs) (Suc n) =
     (if c = NUL then NUL # strncpy_bytes [] n else c # strncpy_bytes cs n)"

definition strncpy :: "(nat \<Rightarrow> char) \<Rightarrow> string \<Rightarrow> nat \<Rightarrow> (nat \<Rightarrow> char)" where
  "strncpy dest src n = (\<lambda>i. if i < n then strncpy_bytes src n ! i else dest i)"

text \<open>
  What \<^verbatim>\<open>%s\<close> prints of the name array: the bytes before the first \<open>NUL\<close>.  The scan
  is cut at the end of the array (past it, C's behaviour is undefined).
\<close>

definition c_string :: "(nat \<Rightarrow> char) \<Rightarrow> string" where
  "c_string buf = takeWhile (\<lambda>c. c \<noteq> NUL) (map buf [0..<NAME_SIZE])"

text \<open>\<^verbatim>\<open>%d\<close>: the decimal digits, with a minus sign for a negative number.\<close>

fun show_nat :: "nat \<Rightarrow> string" where
  "show_nat n =
     (if n < 10 then [''0123456789'' ! n]
      else show_nat (n div 10) @ [''0123456789'' ! (n mod 10)])"

declare show_nat.simps [simp del]

definition show_int :: "int \<Rightarrow> string" where
  "show_int i = (if i < 0 then ''-'' @ show_nat (nat (- i)) else show_nat (nat i))"

text \<open>
  \<^verbatim>\<open>%.2f\<close> of a binary32 value (the promotion to \<^verbatim>\<open>double\<close> is exact): sign bit,
  8 exponent bits, 23 fraction bits.  A finite value has the magnitude
  \<open>float_scaled w / 2 ^ 150\<close>; it is printed rounded to the nearest hundredth, a tie
  going to the even digit.
\<close>

definition float_sign :: "c_float \<Rightarrow> bool" where
  "float_sign w = bit w 31"

definition float_exponent :: "c_float \<Rightarrow> nat" where
  "float_exponent w = unat (drop_bit 23 w AND 0xFF)"

definition float_fraction :: "c_float \<Rightarrow> nat" where
  "float_fraction w = unat (w AND 0x7FFFFF)"

definition float_scaled :: "c_float \<Rightarrow> nat" where
  "float_scaled w =
     (if float_exponent w = 0 then 2 * float_fraction w
      else (2 ^ 23 + float_fraction w) * 2 ^ float_exponent w)"

definition round_half_even :: "nat \<Rightarrow> nat \<Rightarrow> nat" where
  "round_half_even n d =
     (let q = n div d; r = n mod d
      in if 2 * r < d then q else if d < 2 * r then q + 1 else if even q then q else q + 1)"

definition float_hundredths :: "c_float \<Rightarrow> nat" where
  "float_hundredths w = round_half_even (float_scaled w * 100) (2 ^ 150)"

definition show_f2 :: "c_float \<Rightarrow> string" where
  "show_f2 w =
     (if float_sign w then ''-'' else []) @
     (if float_exponent w = 255 then (if float_fraction w = 0 then ''inf'' else ''nan'')
      else show_nat (float_hundredths w div 100) @ ''.'' @
           [''0123456789'' ! (float_hundredths w mod 100 div 10),
            ''0123456789'' ! (float_hundredths w mod 10)])"

text \<open>
  \<^verbatim>\<open>qsort(base, n, size, compar)\<close> sorts the array into ascending order according to the
  comparator; the standard fixes no algorithm.  Insertion sort stands for it: an element
  moves past those the comparator reports it greater than.  The array is the list of its
  elements.
\<close>

fun qsort_insert :: "(Item \<Rightarrow> Item \<Rightarrow> c_int) \<Rightarrow> Item \<Rightarrow> Item list \<Rightarrow> Item list" where
  "qsort_insert compar x [] = [x]"
| "qsort_insert compar x (y # ys) =
     (if 0 < sint (compar x y) then y # qsort_insert compar x ys else x # y # ys)"

fun qsort :: "(Item \<Rightarrow> Item \<Rightarrow> c_int) \<Rightarrow> Item list \<Rightarrow> Item list" where
  "qsort compar [] = []"
| "qsort compar (x # xs) = qsort_insert compar x (qsort compar xs)"

section \<open>The record functions of \<^verbatim>\<open>c_to_cpp_basic/source_repo/main.c\<close>\<close>

text \<open>
  An assignment through the pointer \<open>p\<close>.  The program only assigns through the pointer
  \<^verbatim>\<open>malloc\<close> has just returned, which is live.
\<close>

definition write_item :: "addr \<Rightarrow> (Item \<Rightarrow> Item) \<Rightarrow> machine \<Rightarrow> machine" where
  "write_item p f m = m\<lparr>heap := (heap m)(p := map_option f (heap m p))\<rparr>"

text \<open>
  \<^verbatim>\<open>
  Item* create_item(int id, const char* name, float value) {
      Item* item = malloc(sizeof(Item));
      if (item != NULL) {
          item->id = id;
          strncpy(item->name, name, sizeof(item->name) - 1);
          item->name[sizeof(item->name) - 1] = '\0';  // Ensure null termination
          item->value = value;
      }
      return item;
  }
  \<close>
\<close>

definition create_item :: "c_int \<Rightarrow> string \<Rightarrow> c_float \<Rightarrow> machine \<Rightarrow> addr option \<times> machine" where
  "create_item id' name value m =
     (case malloc m of
        (None, m0) \<Rightarrow> (None, m0)
      | (Some item, m0) \<Rightarrow>
          let m1 = write_item item (\<lambda>it. it\<lparr>item_id := id'\<rparr>) m0;
              m2 = write_item item
                     (\<lambda>it. it\<lparr>item_name := strncpy (item_name it) name (NAME_SIZE - 1)\<rparr>) m1;
              m3 = write_item item
                     (\<lambda>it. it\<lparr>item_name := (item_name it)(NAME_SIZE - 1 := NUL)\<rparr>) m2;
              m4 = write_item item (\<lambda>it. it\<lparr>item_value := value\<rparr>) m3
          in (Some item, m4))"

text \<open>
  \<^verbatim>\<open>
  void print_item(const Item* item) {
      if (item != NULL) {
          printf("ID: %d, Name: %s, Value: %.2f\n", item->id, item->name, item->value);
      }
  }
  \<close>
\<close>

definition item_line :: "Item \<Rightarrow> string" where
  "item_line it =
     ''ID: '' @ show_int (sint (item_id it)) @
     '', Name: '' @ c_string (item_name it) @
     '', Value: '' @ show_f2 (item_value it) @ ''\<newline>''"

definition print_item :: "addr option \<Rightarrow> machine \<Rightarrow> fault + machine" where
  "print_item item m =
     (case item of
        None \<Rightarrow> Inr m
      | Some p \<Rightarrow>
          (case heap m p of
             None \<Rightarrow> Inl (Invalid_Pointer p)
           | Some it \<Rightarrow> Inr (m\<lparr>stdout := stdout m @ item_line it\<rparr>)))"

text \<open>
  \<^verbatim>\<open>
  void free_item(Item* item) {
      if (item != NULL) {
          free(item);
      }
  }
  \<close>
\<close>

definition free_item :: "addr option \<Rightarrow> machine \<Rightarrow> fault + machine" where
  "free_item item m =
     (case item of
        None \<Rightarrow> Inr m
      | Some p \<Rightarrow>
          (case heap m p of
             None \<Rightarrow> Inl (Invalid_Pointer p)
           | Some it \<Rightarrow> Inr (m\<lparr>heap := (heap m)(p := None)\<rparr>)))"

text \<open>
  \<^verbatim>\<open>
  int compare_items(const void* a, const void* b) {
      const Item* item_a = (const Item*)a;
      const Item* item_b = (const Item*)b;
      return item_a->id - item_b->id;
  }
  \<close>
  The two pointers are only read through (they point into the array \<^verbatim>\<open>qsort\<close> is
  sorting), so the model takes the two pointees.  The subtraction is the machine's: it
  wraps around at 32 bits.
\<close>

definition compare_items :: "Item \<Rightarrow> Item \<Rightarrow> c_int" where
  "compare_items item_a item_b = item_id item_a - item_id item_b"

section \<open>The division helpers and \<^verbatim>\<open>Calculator::getSequence\<close>\<close>

text \<open>
  \<^verbatim>\<open>
  double divide(double a, double b) {           // namespace math_utils
      if (b != 0) {
          return a / b;
      } else {
          throw std::runtime_error("Division by zero");
      }
  }
  double divide(double a, double b) {           // class Calculator
      if (b != 0) {
          return a / b;
      } else {
          std::cerr << "Error: Division by zero!" << std::endl;
          return 0.0;
      }
  }
  \<close>
  The type of \<^verbatim>\<open>double\<close> is left open: any type with a zero and a division.  The test
  \<^verbatim>\<open>b != 0\<close> is the disequality of that type, so the two zeros of IEEE 754, which C++
  compares equal, are one value here.  The second function also takes and returns the
  text written to \<^verbatim>\<open>std::cerr\<close>.
\<close>

datatype exn = runtime_error string

definition math_utils_divide :: "'a::{zero,inverse} \<Rightarrow> 'a \<Rightarrow> exn + 'a" where
  "math_utils_divide a b =
     (if b \<noteq> 0 then Inr (a / b) else Inl (runtime_error ''Division by zero''))"

definition Calculator_divide :: "'a::{zero,inverse} \<Rightarrow> 'a \<Rightarrow> string \<Rightarrow> 'a \<times> string" where
  "Calculator_divide a b cerr =
     (if b \<noteq> 0 then (a / b, cerr)
      else (0, cerr @ ''Error: Division by zero!'' @ ''\<newline>''))"

text \<open>
  \<^verbatim>\<open>
  std::vector<int> getSequence(int start, int end) {
      std::vector<int> result;
      for (int i = start; i < end; i++) {
          result.push_back(i);
      }
      return result;
  }
  \<close>
  The loop ends: while \<open>i < end\<close> holds, \<open>i + 1\<close> does not overflow, and the distance to
  \<open>end\<close> shrinks.
\<close>

function getSequence_loop :: "c_int \<Rightarrow> c_int \<Rightarrow> c_int list \<Rightarrow> c_int list" where
  "getSequence_loop i e result =
     (if i <s e then getSequence_loop (i + 1) e (result @ [i]) else result)"
  by pat_completeness auto
termination
proof (relation "measure (\<lambda>(i, e, result). nat (sint e - sint i))")
  show "wf (measure (\<lambda>(i, e, result). nat (sint e - sint i)))"
    by simp
next
  fix i e :: c_int and result :: "c_int list"
  assume "i <s e"
  then have lt: "sint i < sint e"
    by (simp add: word_sless_alt)
  moreover have "sint e < 2 ^ 31" "- (2 ^ 31) \<le> sint i"
    using sint_lt [of e] sint_ge [of i] by simp_all
  ultimately have "signed_take_bit 31 (sint i + 1) = sint i + 1"
    by (intro signed_take_bit_int_eq_self) simp_all
  then have "sint (i + 1) = sint i + 1"
    by (simp add: sint_word_ariths)
  with lt show "((i + 1, e, result @ [i]), (i, e, result))
      \<in> measure (\<lambda>(i, e, result). nat (sint e - sint i))"
    by simp
qed

declare getSequence_loop.simps [simp del]

definition getSequence :: "c_int \<Rightarrow> c_int \<Rightarrow> c_int list" where
  "getSequence start e = getSequence_loop start e []"

section \<open>Inputs and drivers for the properties\<close>

definition mk_item :: "int \<Rightarrow> Item" where
  \<comment> \<open>an Item with the given id, an empty name and the value 0.0\<close>
  "mk_item i = \<lparr>item_id = word_of_int i, item_name = (\<lambda>_. NUL), item_value = 0\<rparr>"

definition no_memory :: machine where
  \<comment> \<open>an allocator with nothing left\<close>
  "no_memory = \<lparr>heap = Map.empty, pool = [], stdout = []\<rparr>"

definition one_block :: machine where
  \<comment> \<open>one block left, at address 16, its bytes all \<open>x\<close>\<close>
  "one_block =
     \<lparr>heap = Map.empty,
      pool = [(16, \<lparr>item_id = 77, item_name = (\<lambda>_. CHR ''x''), item_value = 99\<rparr>)],
      stdout = []\<rparr>"

text \<open>\<^verbatim>\<open>print_item\<close> called \<open>n\<close> times in a row on the same pointer.\<close>

fun print_item_times :: "nat \<Rightarrow> addr option \<Rightarrow> machine \<Rightarrow> fault + machine" where
  "print_item_times 0 item m = Inr m"
| "print_item_times (Suc n) item m =
     (case print_item item m of Inl e \<Rightarrow> Inl e | Inr m' \<Rightarrow> print_item_times n item m')"

text \<open>The contents \<^verbatim>\<open>create_item\<close> leaves in a block that held \<open>junk\<close>.\<close>

definition stored_item :: "c_int \<Rightarrow> string \<Rightarrow> c_float \<Rightarrow> Item \<Rightarrow> Item" where
  "stored_item i nm v junk =
     \<lparr>item_id = i,
      item_name = (strncpy (item_name junk) nm (NAME_SIZE - 1))(NAME_SIZE - 1 := NUL),
      item_value = v\<rparr>"

text \<open>
  The Item of Scenario A as \<^verbatim>\<open>create_item\<close> stores it in the block of \<open>one_block\<close>,
  and the state after that call.
\<close>

definition test_item :: Item where
  "test_item = stored_item 1 ''Test Item'' 0x422A0000
     \<lparr>item_id = 77, item_name = (\<lambda>_. CHR ''x''), item_value = 99\<rparr>"

definition live_machine :: machine where
  "live_machine = snd (create_item 1 ''Test Item'' 0x422A0000 one_block)"

text \<open>Ids between which no subtraction overflows.\<close>

definition small_id :: "Item \<Rightarrow> bool" where
  "small_id it = (- (2 ^ 30) \<le> sint (item_id it) \<and> sint (item_id it) < 2 ^ 30)"

section \<open>The comparator\<close>

lemma compare_items_zero_iff:
  "compare_items a b = 0 \<longleftrightarrow> item_id a = item_id b"
  by (simp add: compare_items_def)

lemma compare_items_neg_swap:
  "compare_items a b = - compare_items b a"
  by (simp add: compare_items_def)

lemma sint_compare_items_no_overflow:
  assumes "- (2 ^ 31) \<le> sint (item_id a) - sint (item_id b)"
    and "sint (item_id a) - sint (item_id b) < 2 ^ 31"
  shows "sint (compare_items a b) = sint (item_id a) - sint (item_id b)"
proof -
  have "sint (compare_items a b) = signed_take_bit 31 (sint (item_id a) - sint (item_id b))"
    by (simp add: compare_items_def sint_word_ariths)
  also have "\<dots> = sint (item_id a) - sint (item_id b)"
    using assms by (intro signed_take_bit_int_eq_self) simp_all
  finally show ?thesis .
qed

lemma sint_compare_items_small:
  "small_id a \<Longrightarrow> small_id b \<Longrightarrow>
   sint (compare_items a b) = sint (item_id a) - sint (item_id b)"
  by (rule sint_compare_items_no_overflow) (simp_all add: small_id_def)

text \<open>
  C1.  The comparator is meant to be negative when \<open>a.id < b.id\<close> and positive when
  \<open>a.id > b.id\<close>, for all ids.  At \<open>a.id = INT_MIN\<close> and \<open>b.id = 1\<close> the subtraction
  overflows: \<open>a.id < b.id\<close>, and the result is \<open>INT_MAX\<close>, a positive number; with the
  arguments swapped the result is negative although the first id is the greater one.
\<close>

theorem compare_items_overflow:
  "sint (item_id (mk_item (- 2147483648))) < sint (item_id (mk_item 1))
   \<and> sint (compare_items (mk_item (- 2147483648)) (mk_item 1)) = 2147483647
   \<and> sint (compare_items (mk_item 1) (mk_item (- 2147483648))) = - 2147483647"
  by (simp add: compare_items_def mk_item_def)

text \<open>
  C10.  The comparator reads nothing but the two id fields: two pairs of Items that agree
  on the ids give the same result, whatever their names and values.
\<close>

theorem compare_items_ids_only:
  "item_id a = item_id a' \<Longrightarrow> item_id b = item_id b' \<Longrightarrow>
   compare_items a b = compare_items a' b'"
  by (simp add: compare_items_def)

theorem compare_items_ids_only_witness:
  "compare_items \<lparr>item_id = 3, item_name = (\<lambda>_. CHR ''a''), item_value = 7\<rparr>
                 \<lparr>item_id = 5, item_name = (\<lambda>_. CHR ''b''), item_value = 9\<rparr>
   = compare_items (mk_item 3) (mk_item 5)"
  using compare_items_ids_only
    [of "\<lparr>item_id = 3, item_name = (\<lambda>_. CHR ''a''), item_value = 7\<rparr>" "mk_item 3"
        "\<lparr>item_id = 5, item_name = (\<lambda>_. CHR ''b''), item_value = 9\<rparr>" "mk_item 5"]
  by (simp add: mk_item_def)

section \<open>Sorting with the comparator\<close>

lemma mset_qsort_insert: "mset (qsort_insert compar x ys) = add_mset x (mset ys)"
  by (induction ys) auto

lemma mset_qsort: "mset (qsort compar xs) = mset xs"
  by (induction xs) (auto simp: mset_qsort_insert)

lemma set_qsort_insert: "set (qsort_insert compar x ys) = insert x (set ys)"
  by (induction ys) auto

lemma set_qsort: "set (qsort compar xs) = set xs"
  by (induction xs) (auto simp: set_qsort_insert)

lemma sorted_qsort_insert:
  assumes "small_id x" and "\<forall>y \<in> set ys. small_id y"
    and "sorted (map (\<lambda>it. sint (item_id it)) ys)"
  shows "sorted (map (\<lambda>it. sint (item_id it)) (qsort_insert compare_items x ys))"
  using assms
proof (induction ys)
  case Nil
  then show ?case by simp
next
  case (Cons y ys)
  have cmp: "sint (compare_items x y) = sint (item_id x) - sint (item_id y)"
    using Cons.prems by (simp add: sint_compare_items_small)
  show ?case
  proof (cases "0 < sint (compare_items x y)")
    case True
    with cmp have "sint (item_id y) < sint (item_id x)"
      by simp
    moreover have "sorted (map (\<lambda>it. sint (item_id it)) (qsort_insert compare_items x ys))"
      using Cons by simp
    ultimately show ?thesis
      using True Cons.prems by (auto simp: set_qsort_insert)
  next
    case False
    with cmp have "sint (item_id x) \<le> sint (item_id y)"
      by simp
    with False Cons.prems show ?thesis
      by auto
  qed
qed

lemma sorted_qsort_small:
  "\<forall>x \<in> set xs. small_id x \<Longrightarrow>
   sorted (map (\<lambda>it. sint (item_id it)) (qsort compare_items xs))"
  by (induction xs) (auto simp: sorted_qsort_insert set_qsort)

lemma scenario_B:
  "map (\<lambda>it. sint (item_id it))
     (qsort compare_items
        [stored_item 3 ''Third'' 0x40400000 j0, stored_item 1 ''First'' 0x3F800000 j1,
         stored_item 2 ''Second'' 0x40000000 j2]) = [1, 2, 3]"
  by (simp add: compare_items_def stored_item_def)

text \<open>
  C3.  Sorting with \<^verbatim>\<open>compare_items\<close> is meant to leave the ids in non-decreasing order
  for every array.  For the array of the two Items with the ids \<open>1\<close> and \<open>INT_MIN\<close> the
  comparator reports \<open>1\<close> as the smaller one (the subtraction overflows), and the
  sorted array has the ids \<open>1, INT_MIN\<close>: a permutation of the input that is not in
  non-decreasing order.
\<close>

theorem qsort_overflow_unsorted:
  "map (\<lambda>it. sint (item_id it))
     (qsort compare_items [mk_item 1, mk_item (- 2147483648)]) = [1, - 2147483648]
   \<and> \<not> sorted (map (\<lambda>it. sint (item_id it))
                   (qsort compare_items [mk_item 1, mk_item (- 2147483648)]))
   \<and> map (\<lambda>it. sint (item_id it))
     (qsort compare_items [mk_item (- 2147483648), mk_item 1]) = [1, - 2147483648]"
  by (simp add: compare_items_def mk_item_def)

text \<open>
  Any other sorting routine gives the same array: it is the only arrangement of the two
  Items in which the comparator does not report an earlier element greater than a later.
\<close>

lemma any_sort_overflow_unsorted:
  assumes "mset ys = mset [mk_item 1, mk_item (- 2147483648)]"
    and "sorted_wrt (\<lambda>x y. sint (compare_items x y) \<le> 0) ys"
  shows "ys = [mk_item 1, mk_item (- 2147483648)]"
proof -
  from assms(1) have "length ys = 2"
    using mset_eq_length [of ys "[mk_item 1, mk_item (- 2147483648)]"] by simp
  then obtain x y where ys: "ys = [x, y]"
    by (auto simp: length_Suc_conv numeral_2_eq_2)
  with assms(1) have "(x = mk_item 1 \<and> y = mk_item (- 2147483648)) \<or>
      (x = mk_item (- 2147483648) \<and> y = mk_item 1)"
    by (auto simp: add_eq_conv_ex)
  moreover have "\<not> sint (compare_items (mk_item (- 2147483648)) (mk_item 1)) \<le> 0"
    by (simp add: compare_items_def mk_item_def)
  ultimately show ?thesis
    using assms(2) ys by auto
qed

section \<open>Copying the name\<close>

lemma length_strncpy_bytes: "length (strncpy_bytes src n) = n"
  by (induction src n rule: strncpy_bytes.induct) auto

lemma strncpy_bytes_Nil: "strncpy_bytes [] n = replicate n NUL"
  by (induction n) auto

lemma strncpy_bytes_eq:
  "strncpy_bytes src n =
     take n (takeWhile (\<lambda>c. c \<noteq> NUL) src) @
     replicate (n - length (takeWhile (\<lambda>c. c \<noteq> NUL) src)) NUL"
  by (induction src n rule: strncpy_bytes.induct) (auto simp: strncpy_bytes_Nil)

lemma takeWhile_before_NUL:
  assumes "\<forall>c \<in> set xs. c \<noteq> NUL"
  shows "takeWhile (\<lambda>c. c \<noteq> NUL) (xs @ replicate k NUL @ [NUL]) = xs"
proof -
  have "takeWhile (\<lambda>c. c \<noteq> NUL) (replicate k NUL @ [NUL]) = []"
    by (cases k) simp_all
  with assms show ?thesis
    by (simp add: takeWhile_append2)
qed

lemma map_terminated_buffer:
  "map ((strncpy dest src n)(n := NUL)) [0..<Suc n] = strncpy_bytes src n @ [NUL]"
  by (auto simp: strncpy_def list_eq_iff_nth_eq nth_append less_Suc_eq length_strncpy_bytes)

lemma c_string_stored:
  "c_string ((strncpy dest src (NAME_SIZE - 1))(NAME_SIZE - 1 := NUL)) =
     take (NAME_SIZE - 1) (takeWhile (\<lambda>c. c \<noteq> NUL) src)"
proof -
  let ?cs = "takeWhile (\<lambda>c. c \<noteq> NUL) src"
  have "map ((strncpy dest src 49)(49 := NUL)) [0..<Suc 49] = strncpy_bytes src 49 @ [NUL]"
    by (rule map_terminated_buffer)
  then have "c_string ((strncpy dest src 49)(49 := NUL)) =
      takeWhile (\<lambda>c. c \<noteq> NUL) (take 49 ?cs @ replicate (49 - length ?cs) NUL @ [NUL])"
    by (simp add: c_string_def NAME_SIZE_def strncpy_bytes_eq)
  also have "\<dots> = take 49 ?cs"
  proof (rule takeWhile_before_NUL)
    show "\<forall>c \<in> set (take 49 ?cs). c \<noteq> NUL"
      by (auto dest!: in_set_takeD set_takeWhileD)
  qed
  finally show ?thesis
    by (simp add: NAME_SIZE_def)
qed

lemma c_string_stored_item:
  "c_string (item_name (stored_item i nm v junk)) =
     take (NAME_SIZE - 1) (takeWhile (\<lambda>c. c \<noteq> NUL) nm)"
  by (simp add: stored_item_def c_string_stored del: One_nat_def)

lemma stored_item_terminators:
  "item_name (stored_item i nm v junk) (NAME_SIZE - 1) = NUL"
  "item_name (stored_item i nm v junk) (min (c_strlen nm) (NAME_SIZE - 1)) = NUL"
proof -
  show "item_name (stored_item i nm v junk) (NAME_SIZE - 1) = NUL"
    by (simp add: stored_item_def)
  show "item_name (stored_item i nm v junk) (min (c_strlen nm) (NAME_SIZE - 1)) = NUL"
  proof (cases "c_strlen nm < NAME_SIZE - 1")
    case True
    then have "strncpy_bytes nm (NAME_SIZE - 1) ! c_strlen nm = NUL"
      by (simp add: strncpy_bytes_eq c_strlen_def nth_append)
    with True show ?thesis
      by (simp add: stored_item_def strncpy_def min_def)
  next
    case False
    then show ?thesis
      by (simp add: stored_item_def min_def)
  qed
qed

lemma c_strlen_no_NUL: "NUL \<notin> set s \<Longrightarrow> c_strlen s = length s"
  by (induction s) (auto simp: c_strlen_def)

section \<open>Creating a record\<close>

lemma malloc_fail: "pool m = [] \<Longrightarrow> malloc m = (None, m)"
  by (simp add: malloc_def)

lemma fst_malloc_None: "fst (malloc m) = None \<longleftrightarrow> pool m = []"
  by (auto simp: malloc_def split: list.splits)

lemma fst_malloc_Some:
  "fst (malloc m) = Some p \<longleftrightarrow> (\<exists>junk rest. pool m = (p, junk) # rest)"
  by (auto simp: malloc_def split: list.splits)

lemma create_item_fail:
  "pool m = [] \<Longrightarrow> create_item i nm v m = (None, m)"
  by (simp add: create_item_def malloc_def)

lemma create_item_success:
  "pool m = (p, junk) # rest \<Longrightarrow>
   create_item i nm v m =
     (Some p, m\<lparr>heap := (heap m)(p \<mapsto> stored_item i nm v junk), pool := rest\<rparr>)"
  by (cases junk) (simp add: create_item_def malloc_def write_item_def stored_item_def Let_def)

lemma fst_create_item: "fst (create_item i nm v m) = fst (malloc m)"
  by (cases "pool m") (auto simp: create_item_fail create_item_success malloc_def)

lemma create_item_SomeD:
  assumes "fst (create_item i nm v m) = Some p"
  shows "\<exists>junk. heap (snd (create_item i nm v m)) p = Some (stored_item i nm v junk)"
proof -
  from assms have "fst (malloc m) = Some p"
    by (simp add: fst_create_item)
  then obtain junk rest where "pool m = (p, junk) # rest"
    by (auto simp: fst_malloc_Some)
  then show ?thesis
    by (auto simp: create_item_success)
qed

text \<open>
  C2.  Creation is never refused for the name: it succeeds exactly when the allocation
  does.  For an input name of length \<open>L\<close> (\<open>c_strlen nm\<close>) the stored name has the length
  \<open>min L 49\<close>: the first \<open>NUL\<close> of the 50-byte array is at that index, and the last
  byte of the array is \<open>NUL\<close> in every case.
\<close>

theorem create_item_name_truncated:
  "fst (create_item i nm v m) = fst (malloc m) \<and>
   (\<forall>p. fst (create_item i nm v m) = Some p \<longrightarrow>
      (\<exists>it. heap (snd (create_item i nm v m)) p = Some it \<and>
            length (c_string (item_name it)) = min (c_strlen nm) (NAME_SIZE - 1) \<and>
            item_name it (min (c_strlen nm) (NAME_SIZE - 1)) = NUL \<and>
            item_name it (NAME_SIZE - 1) = NUL))"
proof (intro conjI allI impI)
  show "fst (create_item i nm v m) = fst (malloc m)"
    by (rule fst_create_item)
next
  fix p
  assume "fst (create_item i nm v m) = Some p"
  then obtain junk where
    "heap (snd (create_item i nm v m)) p = Some (stored_item i nm v junk)"
    using create_item_SomeD by blast
  moreover have "length (c_string (item_name (stored_item i nm v junk)))
      = min (c_strlen nm) (NAME_SIZE - 1)"
    by (simp add: c_string_stored_item c_strlen_def)
  ultimately show "\<exists>it. heap (snd (create_item i nm v m)) p = Some it \<and>
      length (c_string (item_name it)) = min (c_strlen nm) (NAME_SIZE - 1) \<and>
      item_name it (min (c_strlen nm) (NAME_SIZE - 1)) = NUL \<and>
      item_name it (NAME_SIZE - 1) = NUL"
    using stored_item_terminators by blast
qed

lemma pool_one_block: "fst (malloc one_block) = Some 16"
  by (simp add: malloc_def one_block_def)

lemma long_name:
  "c_strlen ''ThisNameIsDefinitelyLongerThanTheFixedCapacityLimitForSure'' = 58"
  by (simp add: c_strlen_def NUL_def)

theorem create_item_name_truncated_witness:
  "fst (create_item 5 ''ThisNameIsDefinitelyLongerThanTheFixedCapacityLimitForSure''
          0x3F800000 one_block) = Some 16 \<and>
   (\<exists>it. heap (snd (create_item 5 ''ThisNameIsDefinitelyLongerThanTheFixedCapacityLimitForSure''
                       0x3F800000 one_block)) 16 = Some it \<and>
         length (c_string (item_name it)) = 49 \<and> item_name it 49 = NUL)"
  using create_item_name_truncated
    [of 5 "''ThisNameIsDefinitelyLongerThanTheFixedCapacityLimitForSure''" "0x3F800000" one_block]
  by (simp add: pool_one_block long_name NAME_SIZE_def)

text \<open>
  C4.  \<^verbatim>\<open>create_item\<close> returns \<^verbatim>\<open>NULL\<close> exactly when the allocation fails, and then
  the state is the one before the call (nothing is written).  Otherwise it returns the
  pointer of a live Item whose id is the given id, whose name reads as the given name
  cut to 49 bytes, and whose value is the given value.
\<close>

theorem create_item_result:
  "(fst (create_item i nm v m) = None \<longleftrightarrow> fst (malloc m) = None) \<and>
   (fst (malloc m) = None \<longrightarrow> create_item i nm v m = (None, m)) \<and>
   (\<forall>p. fst (malloc m) = Some p \<longrightarrow>
      fst (create_item i nm v m) = Some p \<and>
      (\<exists>it. heap (snd (create_item i nm v m)) p = Some it \<and>
            item_id it = i \<and>
            c_string (item_name it) = take (NAME_SIZE - 1) (takeWhile (\<lambda>c. c \<noteq> NUL) nm) \<and>
            item_value it = v))"
proof (intro conjI allI impI)
  show "fst (create_item i nm v m) = None \<longleftrightarrow> fst (malloc m) = None"
    by (simp add: fst_create_item)
next
  assume "fst (malloc m) = None"
  then show "create_item i nm v m = (None, m)"
    by (simp add: fst_malloc_None create_item_fail)
next
  fix p
  assume p: "fst (malloc m) = Some p"
  then show "fst (create_item i nm v m) = Some p"
    by (simp add: fst_create_item)
  then obtain junk where
    "heap (snd (create_item i nm v m)) p = Some (stored_item i nm v junk)"
    using create_item_SomeD by blast
  moreover have "item_id (stored_item i nm v junk) = i" "item_value (stored_item i nm v junk) = v"
    by (simp_all add: stored_item_def)
  ultimately show "\<exists>it. heap (snd (create_item i nm v m)) p = Some it \<and>
      item_id it = i \<and>
      c_string (item_name it) = take (NAME_SIZE - 1) (takeWhile (\<lambda>c. c \<noteq> NUL) nm) \<and>
      item_value it = v"
    using c_string_stored_item by blast
qed

theorem create_item_result_witness:
  "fst (malloc no_memory) = None \<and>
   create_item 7 ''abc'' 5 no_memory = (None, no_memory) \<and>
   fst (malloc one_block) = Some 16 \<and>
   fst (create_item 7 ''abc'' 5 one_block) = Some 16 \<and>
   (\<exists>it. heap (snd (create_item 7 ''abc'' 5 one_block)) 16 = Some it \<and>
         item_id it = 7 \<and> c_string (item_name it) = ''abc'' \<and> item_value it = 5)"
proof -
  have a: "fst (malloc no_memory) = None"
    by (simp add: malloc_def no_memory_def)
  have b: "take (NAME_SIZE - 1) (takeWhile (\<lambda>c. c \<noteq> NUL) ''abc'') = ''abc''"
    by (simp add: NAME_SIZE_def NUL_def)
  show ?thesis
    using a pool_one_block create_item_result [of 7 "''abc''" 5 no_memory]
      create_item_result [of 7 "''abc''" 5 one_block, unfolded b]
    by simp
qed

section \<open>Presenting and releasing a record\<close>

lemma show_f2_42_5: "show_f2 0x422A0000 = ''42.50''"
  by (simp add: show_f2_def float_sign_def float_exponent_def float_fraction_def
      float_hundredths_def float_scaled_def round_half_even_def show_nat.simps Let_def)

lemma float_42_5:
  "\<not> float_sign 0x422A0000 \<and> float_exponent 0x422A0000 \<noteq> 255 \<and>
   2 * float_scaled 0x422A0000 = 85 * 2 ^ 150"
  by (simp add: float_sign_def float_exponent_def float_fraction_def float_scaled_def)

lemma c_string_test_item:
  "c_string (item_name (stored_item i ''Test Item'' v junk)) = ''Test Item''"
  unfolding c_string_stored_item
  by (simp add: NAME_SIZE_def NUL_def)

lemma show_int_1: "show_int 1 = ''1''"
  by (simp add: show_int_def show_nat.simps)

lemma item_line_test_item:
  "item_line (stored_item 1 ''Test Item'' 0x422A0000 junk) =
     ''ID: 1, Name: Test Item, Value: 42.50\<newline>''"
  unfolding item_line_def c_string_test_item
  by (simp add: stored_item_def show_f2_42_5 show_int_1)


text \<open>
  C5.  On the null pointer \<^verbatim>\<open>print_item\<close> and \<^verbatim>\<open>free_item\<close> return without a fault
  and leave the whole state, the output included, as it was.
\<close>

theorem null_pointer_no_op:
  "print_item None m = Inr m \<and> free_item None m = Inr m"
  by (simp add: print_item_def free_item_def)

lemma print_item_live:
  "heap m p = Some it \<Longrightarrow> print_item (Some p) m = Inr (m\<lparr>stdout := stdout m @ item_line it\<rparr>)"
  by (simp add: print_item_def)

lemma print_item_times_live:
  "heap m p = Some it \<Longrightarrow>
   print_item_times n (Some p) m =
     Inr (m\<lparr>stdout := stdout m @ concat (replicate n (item_line it))\<rparr>)"
proof (induction n arbitrary: m)
  case 0
  then show ?case by simp
next
  case (Suc n)
  let ?m' = "m\<lparr>stdout := stdout m @ item_line it\<rparr>"
  have "heap ?m' p = Some it"
    using Suc.prems by simp
  then have "print_item_times n (Some p) ?m' =
      Inr (?m'\<lparr>stdout := stdout ?m' @ concat (replicate n (item_line it))\<rparr>)"
    by (rule Suc.IH)
  with Suc.prems show ?case
    by (simp add: print_item_live)
qed

text \<open>
  C6.  On a live Item one call of \<^verbatim>\<open>print_item\<close> appends the Item's line to the output
  and changes nothing else; \<open>n\<close> calls append \<open>n\<close> copies of that same line, and the
  heap (so the Item's id, name and value) is the one before the calls.
\<close>

theorem print_item_read_only:
  "heap m p = Some it \<Longrightarrow>
   print_item (Some p) m = Inr (m\<lparr>stdout := stdout m @ item_line it\<rparr>) \<and>
   (\<exists>m'. print_item_times n (Some p) m = Inr m' \<and>
         heap m' = heap m \<and> pool m' = pool m \<and> heap m' p = Some it \<and>
         stdout m' = stdout m @ concat (replicate n (item_line it)))"
  by (simp add: print_item_live print_item_times_live)

lemma live_machine_eq:
  "live_machine =
     \<lparr>heap = [16 \<mapsto> test_item], pool = [], stdout = []\<rparr>"
  by (simp add: live_machine_def one_block_def create_item_success test_item_def)

theorem print_item_read_only_witness:
  "heap live_machine 16 = Some test_item \<and>
   print_item (Some 16) live_machine =
     Inr (live_machine\<lparr>stdout := ''ID: 1, Name: Test Item, Value: 42.50\<newline>''\<rparr>) \<and>
   (\<exists>m'. print_item_times 3 (Some 16) live_machine = Inr m' \<and>
         heap m' = heap live_machine \<and>
         stdout m' = ''ID: 1, Name: Test Item, Value: 42.50\<newline>'' @
                     ''ID: 1, Name: Test Item, Value: 42.50\<newline>'' @
                     ''ID: 1, Name: Test Item, Value: 42.50\<newline>'')"
proof -
  have h: "heap live_machine 16 = Some test_item"
    by (simp add: live_machine_eq)
  have s: "stdout live_machine = []"
    by (simp add: live_machine_eq)
  have l: "item_line test_item = ''ID: 1, Name: Test Item, Value: 42.50\<newline>''"
    unfolding test_item_def by (rule item_line_test_item)
  have r: "concat (replicate 3 xs) = xs @ xs @ xs" for xs :: string
    by (simp add: numeral_3_eq_3)
  show ?thesis
    using h print_item_read_only [OF h, of 3]
    unfolding s l r by auto
qed

text \<open>
  C7.  Scenario A: after \<^verbatim>\<open>create_item(1, "Test Item", 42.5)\<close> has succeeded (42.5 is
  the binary32 pattern \<open>0x422A0000\<close>), \<^verbatim>\<open>print_item\<close> on the pointer it returned
  writes the line with id 1, name Test Item and value 42.50.
\<close>

theorem scenario_A:
  "create_item 1 ''Test Item'' 0x422A0000 m = (Some p, m') \<Longrightarrow>
   print_item (Some p) m' =
     Inr (m'\<lparr>stdout := stdout m' @ ''ID: 1, Name: Test Item, Value: 42.50\<newline>''\<rparr>)"
proof -
  assume c: "create_item 1 ''Test Item'' 0x422A0000 m = (Some p, m')"
  then have "fst (create_item 1 ''Test Item'' 0x422A0000 m) = Some p"
    by simp
  then obtain junk where
    "heap (snd (create_item 1 ''Test Item'' 0x422A0000 m)) p =
       Some (stored_item 1 ''Test Item'' 0x422A0000 junk)"
    using create_item_SomeD by blast
  with c have "heap m' p = Some (stored_item 1 ''Test Item'' 0x422A0000 junk)"
    by simp
  then show ?thesis
    by (simp add: print_item_live item_line_test_item)
qed

theorem scenario_A_witness:
  "create_item 1 ''Test Item'' 0x422A0000 one_block = (Some 16, live_machine) \<and>
   print_item (Some 16) live_machine =
     Inr (live_machine\<lparr>stdout := ''ID: 1, Name: Test Item, Value: 42.50\<newline>''\<rparr>)"
proof -
  have c: "create_item 1 ''Test Item'' 0x422A0000 one_block = (Some 16, live_machine)"
    by (simp add: live_machine_eq one_block_def create_item_success test_item_def)
  have "stdout live_machine = []"
    by (simp add: live_machine_eq)
  with c scenario_A [OF c] show ?thesis
    by simp
qed

section \<open>The division helpers\<close>

text \<open>
  C8.  For a divisor other than zero both helpers return the quotient (and
  \<^verbatim>\<open>Calculator::divide\<close> writes nothing).  For the divisor zero \<^verbatim>\<open>math_utils::divide\<close>
  throws the runtime error "Division by zero" and returns no value, while
  \<^verbatim>\<open>Calculator::divide\<close> returns zero, after writing its message to the error stream.
\<close>

theorem divide_helpers:
  "(b \<noteq> 0 \<longrightarrow>
      math_utils_divide a b = Inr (a / b) \<and> Calculator_divide a b cerr = (a / b, cerr)) \<and>
   (b = 0 \<longrightarrow>
      math_utils_divide a b = Inl (runtime_error ''Division by zero'') \<and>
      Calculator_divide a b cerr = (0, cerr @ ''Error: Division by zero!\<newline>''))"
  by (simp add: math_utils_divide_def Calculator_divide_def)

theorem divide_helpers_witness:
  "math_utils_divide (10 :: rat) 4 = Inr (5 / 2) \<and>
   Calculator_divide (10 :: rat) 4 [] = (5 / 2, []) \<and>
   math_utils_divide (10 :: rat) 0 = Inl (runtime_error ''Division by zero'') \<and>
   Calculator_divide (10 :: rat) 0 [] = (0, ''Error: Division by zero!\<newline>'')"
  using divide_helpers [of "4 :: rat" 10 "[]"] divide_helpers [of "0 :: rat" 10 "[]"]
  by simp

section \<open>The sequence\<close>

lemma sint_succ:
  fixes i e :: c_int
  assumes "i <s e"
  shows "sint (i + 1) = sint i + 1"
proof -
  have "sint i < sint e"
    using assms by (simp add: word_sless_alt)
  moreover have "sint e < 2 ^ 31" "- (2 ^ 31) \<le> sint i"
    using sint_lt [of e] sint_ge [of i] by simp_all
  ultimately have "signed_take_bit 31 (sint i + 1) = sint i + 1"
    by (intro signed_take_bit_int_eq_self) simp_all
  then show ?thesis
    by (simp add: sint_word_ariths)
qed

lemma getSequence_loop_eq:
  "getSequence_loop i e result = result @ map word_of_int [sint i .. sint e - 1]"
proof (induction i e result rule: getSequence_loop.induct)
  case (1 i e result)
  show ?case
  proof (cases "i <s e")
    case True
    then have "sint i < sint e"
      by (simp add: word_sless_alt)
    then have "[sint i .. sint e - 1] = sint i # [sint i + 1 .. sint e - 1]"
      by (simp add: upto_rec1)
    with True "1.IH" sint_succ [OF True] show ?thesis
      by (subst getSequence_loop.simps) simp
  next
    case False
    then have "sint e \<le> sint i"
      by (simp add: word_sless_alt)
    with False show ?thesis
      by (subst getSequence_loop.simps) simp
  qed
qed

text \<open>
  C9.  \<^verbatim>\<open>getSequence(start, end)\<close> returns the consecutive integers from \<open>start\<close> to
  \<open>end - 1\<close>, in this order and nothing else: as many as \<open>end - start\<close> when that is
  positive, and the empty list whenever \<open>start \<ge> end\<close>.
\<close>

theorem getSequence_consecutive:
  "getSequence start e = map word_of_int [sint start .. sint e - 1] \<and>
   map sint (getSequence start e) = [sint start .. sint e - 1] \<and>
   length (getSequence start e) = nat (sint e - sint start) \<and>
   (sint e \<le> sint start \<longrightarrow> getSequence start e = [])"
proof -
  have eq: "getSequence start e = map word_of_int [sint start .. sint e - 1]"
    by (simp add: getSequence_def getSequence_loop_eq)
  have "sint (word_of_int k :: c_int) = k" if "k \<in> set [sint start .. sint e - 1]" for k
  proof -
    from that have "sint start \<le> k" "k < sint e"
      by simp_all
    with sint_ge [of start] sint_lt [of e] have "- (2 ^ 31) \<le> k" "k < 2 ^ 31"
      by simp_all
    then have "signed_take_bit 31 k = k"
      by (intro signed_take_bit_int_eq_self) simp_all
    then show ?thesis
      by (simp add: sint_word_ariths signed_of_int)
  qed
  then have "map (\<lambda>k. sint (word_of_int k :: c_int)) [sint start .. sint e - 1]
      = [sint start .. sint e - 1]"
    by (intro map_idI)
  then have "map sint (getSequence start e) = [sint start .. sint e - 1]"
    unfolding eq by (simp add: comp_def)
  with eq show ?thesis
    by simp
qed

theorem getSequence_consecutive_witness:
  "getSequence 1 5 = [1, 2, 3, 4] \<and> sint (3 :: c_int) \<le> sint (5 :: c_int) \<and>
   getSequence 5 3 = [] \<and> getSequence 4 4 = []"
proof -
  have "[1 .. (4 :: int)] = [1, 2, 3, 4]"
    by (simp add: upto_rec1)
  with getSequence_consecutive [of 5 3] getSequence_consecutive [of 4 4]
    getSequence_consecutive [of 1 5]
  show ?thesis
    by simp
qed

end
